theory Spec2Isabelle
  imports Complex_Main "HOL-Library.AList"
begin

section \<open>JavaScript numbers\<close>

text \<open>
  The canvas (\<^verbatim>\<open>Canvas\<close> in \<^verbatim>\<open>src/components/DetailModal.tsx\<close>) computes with
  JavaScript numbers. A number is \<^verbatim>\<open>NaN\<close>, one of the two infinities, or a finite
  value. Finite values are taken as reals: the rounding of an arithmetic result
  to the nearest double and the sign of zero are not represented. Every zero
  divisor of the canvas is a positive zero (a literal or a pixel size), which is
  how \<open>n_div\<close> reads a zero.
\<close>

datatype number = NaN | PosInf | NegInf | Fin real

fun n_neg :: "number \<Rightarrow> number" where
  "n_neg (Fin a) = Fin (- a)"
| "n_neg NaN = NaN"
| "n_neg PosInf = NegInf"
| "n_neg NegInf = PosInf"

fun n_add :: "number \<Rightarrow> number \<Rightarrow> number" where
  "n_add (Fin a) (Fin b) = Fin (a + b)"
| "n_add NaN _ = NaN"
| "n_add _ NaN = NaN"
| "n_add PosInf NegInf = NaN"
| "n_add NegInf PosInf = NaN"
| "n_add PosInf _ = PosInf"
| "n_add _ PosInf = PosInf"
| "n_add NegInf _ = NegInf"
| "n_add _ NegInf = NegInf"

definition n_sub :: "number \<Rightarrow> number \<Rightarrow> number" where
  "n_sub a b = n_add a (n_neg b)"

fun n_mul :: "number \<Rightarrow> number \<Rightarrow> number" where
  "n_mul (Fin a) (Fin b) = Fin (a * b)"
| "n_mul NaN _ = NaN"
| "n_mul _ NaN = NaN"
| "n_mul (Fin a) i = (if a = 0 then NaN else if 0 < a then i else n_neg i)"
| "n_mul i (Fin b) = (if b = 0 then NaN else if 0 < b then i else n_neg i)"
| "n_mul PosInf i = i"
| "n_mul NegInf i = n_neg i"

fun n_div :: "number \<Rightarrow> number \<Rightarrow> number" where
  "n_div (Fin a) (Fin b) =
     (if b = 0 then (if a = 0 then NaN else if 0 < a then PosInf else NegInf)
      else Fin (a / b))"
| "n_div NaN _ = NaN"
| "n_div _ NaN = NaN"
| "n_div (Fin a) _ = Fin 0"
| "n_div PosInf (Fin b) = (if 0 \<le> b then PosInf else NegInf)"
| "n_div NegInf (Fin b) = (if 0 \<le> b then NegInf else PosInf)"
| "n_div PosInf PosInf = NaN"
| "n_div PosInf NegInf = NaN"
| "n_div NegInf PosInf = NaN"
| "n_div NegInf NegInf = NaN"

text \<open>\<open>n_less a b\<close> is \<^verbatim>\<open>a < b\<close>; a comparison with \<^verbatim>\<open>NaN\<close> is false.\<close>

fun n_less :: "number \<Rightarrow> number \<Rightarrow> bool" where
  "n_less (Fin a) (Fin b) = (a < b)"
| "n_less NaN _ = False"
| "n_less _ NaN = False"
| "n_less PosInf _ = False"
| "n_less NegInf NegInf = False"
| "n_less NegInf _ = True"
| "n_less (Fin a) PosInf = True"
| "n_less (Fin a) NegInf = False"

definition n_gt :: "number \<Rightarrow> number \<Rightarrow> bool" where
  "n_gt a b = n_less b a"

fun Math_abs :: "number \<Rightarrow> number" where
  "Math_abs (Fin a) = Fin \<bar>a\<bar>"
| "Math_abs NaN = NaN"
| "Math_abs _ = PosInf"

text \<open>\<^verbatim>\<open>Math.round\<close> rounds to the nearest integer, a tie towards \<open>+\<infinity>\<close>.\<close>

fun Math_round :: "number \<Rightarrow> number" where
  "Math_round (Fin a) = Fin (of_int \<lfloor>a + 1 / 2\<rfloor>)"
| "Math_round n = n"

text \<open>\<^verbatim>\<open>Math.hypot\<close>: an infinite argument wins over \<^verbatim>\<open>NaN\<close>.\<close>

fun Math_hypot :: "number \<Rightarrow> number \<Rightarrow> number" where
  "Math_hypot (Fin a) (Fin b) = Fin (sqrt (a * a + b * b))"
| "Math_hypot PosInf _ = PosInf"
| "Math_hypot NegInf _ = PosInf"
| "Math_hypot _ PosInf = PosInf"
| "Math_hypot _ NegInf = PosInf"
| "Math_hypot NaN _ = NaN"
| "Math_hypot _ NaN = NaN"

text \<open>
  \<^verbatim>\<open>parseFloat(d.toFixed(3))\<close>: \<^verbatim>\<open>toFixed\<close> prints the integer \<open>n\<close> nearest to
  \<open>\<bar>d\<bar> * 1000\<close> (the larger one at a tie) with three decimals and the sign of \<open>d\<close>;
  from \<open>10\<^sup>2\<^sup>1\<close> on it prints the number itself.
\<close>

fun toFixed3 :: "number \<Rightarrow> number" where
  "toFixed3 (Fin a) =
     (if 10 ^ 21 \<le> \<bar>a\<bar> then Fin a
      else Fin (sgn a * of_int \<lfloor>\<bar>a\<bar> * 1000 + 1 / 2\<rfloor> / 1000))"
| "toFixed3 n = n"

text \<open>
  The literal \<^verbatim>\<open>0.01\<close> of the measure tool denotes the double nearest to one
  hundredth, \<open>5764607523034235 / 2\<^sup>5\<^sup>9\<close>, which is a little more than one hundredth.
\<close>

definition double_0_01 :: real where
  "double_0_01 = 5764607523034235 / 2 ^ 59"

section \<open>Data model of the canvas\<close>

record point =
  pt_x :: number
  pt_y :: number

text \<open>
  \<^verbatim>\<open>ToolType\<close>: the tools \<^verbatim>\<open>'select'\<close>, \<^verbatim>\<open>'measure'\<close> and \<^verbatim>\<open>'detail'\<close> carry
  the prefix \<open>tool_\<close> here.
\<close>

datatype ToolType =
  tool_select | tool_measure | tool_detail
| draw_rect | draw_circle | draw_polyline | draw_arc

text \<open>\<^verbatim>\<open>activeTool.startsWith('draw_')\<close>\<close>

fun is_draw_tool :: "ToolType \<Rightarrow> bool" where
  "is_draw_tool draw_rect = True"
| "is_draw_tool draw_circle = True"
| "is_draw_tool draw_polyline = True"
| "is_draw_tool draw_arc = True"
| "is_draw_tool _ = False"

record Measurement =
  m_p1 :: point
  m_p2 :: point
  distance :: number

text \<open>
  \<^verbatim>\<open>UserShape\<close> is a union tagged by its \<^verbatim>\<open>type\<close> field, with the fields of
  \<^verbatim>\<open>data\<close> that each tag is built with:
  \<^verbatim>\<open>rect {x, y, w, h, startX, startY}\<close>, \<^verbatim>\<open>circle {cx, cy, r}\<close>,
  \<^verbatim>\<open>polyline {points}\<close>, \<^verbatim>\<open>arc {p1, p2, control}\<close>. The constructors take the
  fields in this order.
\<close>

datatype shape_data =
  Rect number number number number number number
| Circle number number number
| Polyline "point list"
| Arc point point point

record UserShape =
  shape_id :: string
  color :: string
  data :: shape_data

record viewport =
  vx :: number
  vy :: number
  vw :: number
  vh :: number

text \<open>A \<^verbatim>\<open>DOMRect\<close> as \<^verbatim>\<open>getBBox()\<close> returns it.\<close>

record DOMRect =
  bbox_x :: number
  bbox_y :: number
  bbox_width :: number
  bbox_height :: number

record SelectedElement =
  sel_id :: string
  sel_type :: string
  sel_attributes :: "(string \<times> string) list"
  sel_bbox :: DOMRect

text \<open>
  The component state: one field for each \<^verbatim>\<open>useState\<close> hook of \<^verbatim>\<open>Canvas\<close>, and
  \<open>dragStartRef\<close> for the ref of that name.
\<close>

record canvas =
  viewState :: "viewport option"
  isPanning :: bool
  lastMousePos :: point
  snapEnabled :: bool
  cursorPos :: "point option"
  activeTool :: ToolType
  measureStart :: "point option"
  measurements :: "Measurement list"
  detailInput :: string
  userShapes :: "UserShape list"
  currentShape :: "UserShape option"
  drawStep :: nat
  history :: "UserShape list list"
  future :: "UserShape list list"
  selectedElement :: "SelectedElement option"
  dragStartRef :: "point option"

section \<open>Undo and redo\<close>

definition saveState :: "canvas \<Rightarrow> canvas" where
  "saveState st = st\<lparr>history := history st @ [userShapes st], future := []\<rparr>"

definition handleUndo :: "canvas \<Rightarrow> canvas" where
  "handleUndo st =
     (if length (history st) = 0 then st
      else let previous = last (history st);
               newHistory = butlast (history st)
           in st\<lparr>future := userShapes st # future st,
                 userShapes := previous,
                 history := newHistory\<rparr>)"

definition handleRedo :: "canvas \<Rightarrow> canvas" where
  "handleRedo st =
     (if length (future st) = 0 then st
      else let next = hd (future st);
               newFuture = tl (future st)
           in st\<lparr>history := history st @ [userShapes st],
                 userShapes := next,
                 future := newFuture\<rparr>)"

text \<open>
  Every handler that commits a change of the shape list does so by
  \<^verbatim>\<open>saveState(); setUserShapes(...)\<close>: the list before the change goes onto
  \<open>history\<close>, \<open>future\<close> is emptied, and the new list is adopted.
\<close>

definition commit :: "UserShape list \<Rightarrow> canvas \<Rightarrow> canvas" where
  "commit new st = (saveState st)\<lparr>userShapes := new\<rparr>"

section \<open>Parsing the bounds string\<close>

text \<open>
  \<^verbatim>\<open>viewBox.trim().split(/\s+/).map(Number)\<close>. A JavaScript string is the sequence
  of its UTF-16 code units, here natural numbers; \<open>ascii\<close> gives the code units of
  an ASCII text. The white space of \<^verbatim>\<open>trim\<close>, of \<^verbatim>\<open>\s\<close> and of \<^verbatim>\<open>Number\<close> is the
  same set: tab, line feed, vertical tab, form feed, carriage return, space,
  no-break space, U+1680, U+2000 to U+200A, the line and paragraph separators,
  U+202F, U+205F, U+3000 and U+FEFF.
\<close>

type_synonym js_string = "nat list"

definition ascii :: "string \<Rightarrow> js_string" where
  "ascii s = map of_char s"

definition is_ws :: "nat \<Rightarrow> bool" where
  "is_ws c =
     (c \<in> set [0x09, 0x0A, 0x0B, 0x0C, 0x0D, 0x20, 0xA0, 0x1680,
                0x2000, 0x2001, 0x2002, 0x2003, 0x2004, 0x2005, 0x2006, 0x2007, 0x2008,
                0x2009, 0x200A, 0x2028, 0x2029, 0x202F, 0x205F, 0x3000, 0xFEFF])"

definition trim :: "js_string \<Rightarrow> js_string" where
  "trim s = rev (dropWhile is_ws (rev (dropWhile is_ws s)))"

text \<open>
  \<^verbatim>\<open>s.split(/\s+/)\<close>: the pieces between the maximal runs of white space, an empty
  piece before a leading run and after a trailing one. The flag says that the
  scan is inside a run; \<open>cur\<close> is the piece being read, reversed.
\<close>

fun split_go :: "bool \<Rightarrow> js_string \<Rightarrow> js_string \<Rightarrow> js_string list" where
  "split_go insep cur [] = [rev cur]"
| "split_go insep cur (c # cs) =
     (if is_ws c then
        (if insep then split_go True cur cs else rev cur # split_go True [] cs)
      else split_go False (c # cur) cs)"

definition split_ws :: "js_string \<Rightarrow> js_string list" where
  "split_ws s = split_go False [] s"

text \<open>
  \<^verbatim>\<open>Number(s)\<close> on a string is ECMAScript's StringToNumber: the empty string is 0;
  a literal is \<^verbatim>\<open>0x\<close>, \<^verbatim>\<open>0o\<close> or \<^verbatim>\<open>0b\<close> with digits of that base, or an optional
  sign before \<^verbatim>\<open>Infinity\<close> or a decimal literal (digits, an optional fraction,
  an optional exponent); everything else is \<^verbatim>\<open>NaN\<close>. A literal whose value
  rounds to \<open>2\<^sup>1\<^sup>0\<^sup>2\<^sup>4\<close> or more, that is a value from \<open>2\<^sup>1\<^sup>0\<^sup>2\<^sup>4 - 2\<^sup>9\<^sup>7\<^sup>0\<close> on, is
  \<^verbatim>\<open>Infinity\<close>.
\<close>

definition overflow :: "real \<Rightarrow> number" where
  "overflow v = (if 2 ^ 1024 - 2 ^ 970 \<le> v then PosInf else Fin v)"

definition digit_of :: "nat \<Rightarrow> nat option" where
  "digit_of n =
     (if 48 \<le> n \<and> n \<le> 57 then Some (n - 48)
      else if 97 \<le> n \<and> n \<le> 102 then Some (n - 87)
      else if 65 \<le> n \<and> n \<le> 70 then Some (n - 55)
      else None)"

fun digits_acc :: "nat \<Rightarrow> nat \<Rightarrow> js_string \<Rightarrow> nat option" where
  "digits_acc base acc [] = Some acc"
| "digits_acc base acc (c # cs) =
     (case digit_of c of
        None \<Rightarrow> None
      | Some d \<Rightarrow> if d < base then digits_acc base (acc * base + d) cs else None)"

text \<open>One digit or more of the base, as a natural number.\<close>

definition parse_digits :: "nat \<Rightarrow> js_string \<Rightarrow> nat option" where
  "parse_digits base s = (if s = [] then None else digits_acc base 0 s)"

text \<open>The part before the first code unit that satisfies \<open>P\<close>, and the part after it.\<close>

fun split_at :: "(nat \<Rightarrow> bool) \<Rightarrow> js_string \<Rightarrow> js_string \<times> js_string option" where
  "split_at P [] = ([], None)"
| "split_at P (c # cs) =
     (if P c then ([], Some cs)
      else case split_at P cs of (a, b) \<Rightarrow> (c # a, b))"

definition parse_exponent :: "js_string option \<Rightarrow> int option" where
  "parse_exponent e =
     (case e of
        None \<Rightarrow> Some 0
      | Some [] \<Rightarrow> None
      | Some (c # cs) \<Rightarrow>
          (if c = of_char CHR ''-'' then map_option (\<lambda>n. - int n) (parse_digits 10 cs)
           else if c = of_char CHR ''+'' then map_option int (parse_digits 10 cs)
           else map_option int (parse_digits 10 (c # cs))))"

definition parse_mantissa :: "js_string \<Rightarrow> real option" where
  "parse_mantissa m =
     (case split_at (\<lambda>c. c = of_char CHR ''.'') m of
        (ip, None) \<Rightarrow> map_option real (parse_digits 10 ip)
      | (ip, Some fp) \<Rightarrow>
          (if ip = [] \<and> fp = [] then None
           else (case (digits_acc 10 0 ip, digits_acc 10 0 fp) of
                   (Some i, Some f) \<Rightarrow> Some (real i + real f / 10 ^ length fp)
                 | _ \<Rightarrow> None)))"

definition parse_unsigned :: "js_string \<Rightarrow> number" where
  "parse_unsigned u =
     (if u = ascii ''Infinity'' then PosInf
      else case split_at (\<lambda>c. c = of_char CHR ''e'' \<or> c = of_char CHR ''E'') u of
        (m, e) \<Rightarrow>
          (case (parse_mantissa m, parse_exponent e) of
             (Some v, Some k) \<Rightarrow>
               overflow (if 0 \<le> k then v * 10 ^ nat k else v / 10 ^ nat (- k))
           | _ \<Rightarrow> NaN))"

definition parse_radix :: "nat \<Rightarrow> js_string \<Rightarrow> number" where
  "parse_radix base ds =
     (case parse_digits base ds of None \<Rightarrow> NaN | Some n \<Rightarrow> overflow (real n))"

definition js_Number :: "js_string \<Rightarrow> number" where
  "js_Number s =
     (let t = trim s
      in if t = [] then Fin 0
         else if take 2 t = ascii ''0x'' \<or> take 2 t = ascii ''0X''
           then parse_radix 16 (drop 2 t)
         else if take 2 t = ascii ''0o'' \<or> take 2 t = ascii ''0O''
           then parse_radix 8 (drop 2 t)
         else if take 2 t = ascii ''0b'' \<or> take 2 t = ascii ''0B''
           then parse_radix 2 (drop 2 t)
         else if hd t = of_char CHR ''-'' then n_neg (parse_unsigned (tl t))
         else if hd t = of_char CHR ''+'' then parse_unsigned (tl t)
         else parse_unsigned t)"

text \<open>\<^verbatim>\<open>baseViewBox\<close>, the memo on the \<^verbatim>\<open>viewBox\<close> prop.\<close>

definition baseViewBox :: "js_string \<Rightarrow> number list" where
  "baseViewBox viewBox =
     (let parts = map js_Number (split_ws (trim viewBox))
      in if length parts = 4 then parts else [Fin 0, Fin 0, Fin 100, Fin 100])"

section \<open>Viewport\<close>

definition base_viewport :: "js_string \<Rightarrow> viewport" where
  "base_viewport viewBox =
     (let b = baseViewBox viewBox
      in \<lparr>vx = b ! 0, vy = b ! 1, vw = b ! 2, vh = b ! 3\<rparr>)"

text \<open>
  The effect with the dependency \<^verbatim>\<open>[baseViewBox]\<close>: React runs it after the first
  render and after every render in which the memo on the \<^verbatim>\<open>viewBox\<close> prop was
  recomputed, that is, in which the bounds string had changed.
\<close>

definition resetEffect :: "js_string \<Rightarrow> canvas \<Rightarrow> canvas" where
  "resetEffect viewBox st =
     st\<lparr>viewState := Some (base_viewport viewBox),
        measurements := [],
        userShapes := [],
        history := [],
        future := [],
        selectedElement := None\<rparr>"




definition handleReset :: "js_string \<Rightarrow> canvas \<Rightarrow> canvas" where
  "handleReset viewBox st = st\<lparr>viewState := Some (base_viewport viewBox)\<rparr>"

section \<open>Hit test\<close>

text \<open>
  A DOM element as \<^verbatim>\<open>handleElementClick\<close> reads it: its attributes in document
  order, its tag name, whether it is the canvas root (\<^verbatim>\<open>svgRef.current\<close>), the
  box \<^verbatim>\<open>getBBox()\<close> returns, and its parent.
\<close>

datatype element =
  Element (attributes: "(string \<times> string) list") (tagName: string) (isSvgRef: bool)
          (getBBox: DOMRect) (parentElement: "element option")

text \<open>\<^verbatim>\<open>el.id\<close> reflects the \<^verbatim>\<open>id\<close> attribute, the empty string when there is none.\<close>

definition el_id :: "element \<Rightarrow> string" where
  "el_id el = (case map_of (attributes el) ''id'' of None \<Rightarrow> [] | Some v \<Rightarrow> v)"

definition startsWith :: "string \<Rightarrow> string \<Rightarrow> bool" where
  "startsWith s p = (take (length p) s = p)"

text \<open>The loop that copies \<^verbatim>\<open>current.attributes\<close> into the record \<^verbatim>\<open>attrs\<close>.\<close>

definition collect_attrs :: "element \<Rightarrow> (string \<times> string) list" where
  "collect_attrs el = fold (\<lambda>(n, v). AList.update n v) (attributes el) []"

text \<open>\<^verbatim>\<open>current.getAttribute('data-type') || current.tagName\<close>\<close>

definition element_type :: "element \<Rightarrow> string" where
  "element_type el =
     (case map_of (attributes el) ''data-type'' of
        None \<Rightarrow> tagName el
      | Some v \<Rightarrow> if v = [] then tagName el else v)"

definition is_candidate :: "element \<Rightarrow> bool" where
  "is_candidate el =
     (el_id el \<noteq> [] \<and> \<not> startsWith (el_id el) ''grid'' \<and> \<not> startsWith (el_id el) ''arrow'')"

text \<open>The object that \<^verbatim>\<open>setSelectedElement\<close> gets for the element found.\<close>

definition selection_of :: "element \<Rightarrow> SelectedElement" where
  "selection_of el =
     \<lparr>sel_id = el_id el, sel_type = element_type el,
      sel_attributes = collect_attrs el, sel_bbox = getBBox el\<rparr>"

text \<open>
  The \<^verbatim>\<open>while\<close> loop of \<^verbatim>\<open>handleElementClick\<close>, from \<open>current\<close> at \<open>depth\<close>: the
  selection it finds, or \<open>None\<close> when it leaves with \<^verbatim>\<open>found\<close> false.
\<close>

function walk :: "element option \<Rightarrow> nat \<Rightarrow> SelectedElement option" where
  "walk current depth =
     (case current of
        None \<Rightarrow> None
      | Some el \<Rightarrow>
          if \<not> isSvgRef el \<and> depth < 5 then
            (if is_candidate el then Some (selection_of el)
             else walk (parentElement el) (depth + 1))
          else None)"
  by pat_completeness auto
termination
  by (relation "measure (\<lambda>(current, depth). 5 - depth)") auto

text \<open>The test for a click on the background, before the loop.\<close>

definition is_background :: "element \<Rightarrow> bool" where
  "is_background target =
     (isSvgRef target \<or> tagName target = ''svg'' \<or> el_id target = ''grid-layer'')"

definition handleElementClick :: "element \<Rightarrow> canvas \<Rightarrow> canvas" where
  "handleElementClick target st =
     (if is_background target
      then st\<lparr>selectedElement := None\<rparr>
      else case walk (Some target) 0 of
             Some found \<Rightarrow> st\<lparr>selectedElement := Some found\<rparr>
           | None \<Rightarrow> st\<lparr>selectedElement := None\<rparr>)"

section \<open>Drawing tools\<close>

text \<open>
  \<open>now\<close> stands for \<^verbatim>\<open>Date.now().toString()\<close>, the identifier a new shape gets.
  A click of the polyline tool on a shape in progress that has no points throws
  when the points are spread; the handler ends there, with the state as it was.
\<close>

definition handleDrawingStart :: "ToolType \<Rightarrow> point \<Rightarrow> string \<Rightarrow> canvas \<Rightarrow> canvas" where
  "handleDrawingStart tool pos now st =
     (if tool = draw_rect then
        st\<lparr>currentShape := Some \<lparr>shape_id = now, color = ''#10b981'',
               data = Rect (pt_x pos) (pt_y pos) (Fin 0) (Fin 0) (pt_x pos) (pt_y pos)\<rparr>\<rparr>
      else if tool = draw_circle then
        st\<lparr>currentShape := Some \<lparr>shape_id = now, color = ''#10b981'',
               data = Circle (pt_x pos) (pt_y pos) (Fin 0)\<rparr>\<rparr>
      else if tool = draw_polyline then
        (case currentShape st of
           None \<Rightarrow>
             st\<lparr>currentShape := Some \<lparr>shape_id = now, color = ''#10b981'',
                    data = Polyline [pos, pos]\<rparr>\<rparr>
         | Some cs \<Rightarrow>
             (case data cs of
                Polyline pts \<Rightarrow> st\<lparr>currentShape := Some (cs\<lparr>data := Polyline (pts @ [pos])\<rparr>)\<rparr>
              | _ \<Rightarrow> st))
      else if tool = draw_arc then
        (if drawStep st = 0 then
           st\<lparr>currentShape := Some \<lparr>shape_id = now, color = ''#10b981'',
                  data = Arc pos pos pos\<rparr>,
              drawStep := 1\<rparr>
         else if drawStep st = 1 then st\<lparr>drawStep := 2\<rparr>
         else if drawStep st = 2 then
           (case currentShape st of
              Some cs \<Rightarrow> (saveState st)\<lparr>userShapes := userShapes st @ [cs]\<rparr>
            | None \<Rightarrow> st)\<lparr>currentShape := None, drawStep := 0\<rparr>
         else st)
      else st)"

definition updateDrawingPreview :: "point \<Rightarrow> canvas \<Rightarrow> canvas" where
  "updateDrawingPreview pos st =
     (case currentShape st of
        None \<Rightarrow> st
      | Some cs \<Rightarrow>
          (case data cs of
             Rect x0 y0 w0 h0 sX sY \<Rightarrow>
               let w = n_sub (pt_x pos) sX;
                   h = n_sub (pt_y pos) sY
               in st\<lparr>currentShape := Some (cs\<lparr>data :=
                       Rect (if n_less w (Fin 0) then pt_x pos else sX)
                            (if n_less h (Fin 0) then pt_y pos else sY)
                            (Math_abs w) (Math_abs h) sX sY\<rparr>)\<rparr>
           | Circle c_x c_y r0 \<Rightarrow>
               let r = Math_hypot (n_sub (pt_x pos) c_x) (n_sub (pt_y pos) c_y)
               in st\<lparr>currentShape := Some (cs\<lparr>data := Circle c_x c_y r\<rparr>)\<rparr>
           | Polyline pts \<Rightarrow>
               let pts' = (if pts = [] then pts else pts[length pts - 1 := pos])
               in st\<lparr>currentShape := Some (cs\<lparr>data := Polyline pts'\<rparr>)\<rparr>
           | Arc a b c \<Rightarrow>
               if drawStep st = 1 then
                 st\<lparr>currentShape := Some (cs\<lparr>data :=
                       Arc a pos \<lparr>pt_x = n_div (n_add (pt_x a) (pt_x pos)) (Fin 2),
                                  pt_y = n_div (n_add (pt_y a) (pt_y pos)) (Fin 2)\<rparr>\<rparr>)\<rparr>
               else if drawStep st = 2 then
                 st\<lparr>currentShape := Some (cs\<lparr>data := Arc a b pos\<rparr>)\<rparr>
               else st))"

section \<open>Pointer events\<close>

text \<open>
  \<^verbatim>\<open>onMouseDown\<close>, with the event's \<^verbatim>\<open>button\<close>, \<^verbatim>\<open>clientX\<close> and \<^verbatim>\<open>clientY\<close>.
\<close>

definition onMouseDown :: "int \<Rightarrow> number \<Rightarrow> number \<Rightarrow> string \<Rightarrow> canvas \<Rightarrow> canvas" where
  "onMouseDown button clientX clientY now st =
     (if button \<noteq> 0 then st
      else
        let st1 = st\<lparr>dragStartRef := Some \<lparr>pt_x = clientX, pt_y = clientY\<rparr>\<rparr>
        in case cursorPos st of
             None \<Rightarrow> st1
           | Some cp \<Rightarrow>
               if activeTool st = tool_measure then
                 (case measureStart st of
                    None \<Rightarrow> st1\<lparr>measureStart := Some cp\<rparr>
                  | Some ms \<Rightarrow>
                      let dist = Math_hypot (n_sub (pt_x cp) (pt_x ms))
                                            (n_sub (pt_y cp) (pt_y ms))
                      in (if n_gt dist (Fin double_0_01) then
                            st1\<lparr>measurements := measurements st @
                                  [\<lparr>m_p1 = ms, m_p2 = cp, distance = toFixed3 dist\<rparr>]\<rparr>
                          else st1)\<lparr>measureStart := None\<rparr>)
               else if is_draw_tool (activeTool st) then
                 handleDrawingStart (activeTool st) cp now st1
               else if activeTool st = tool_select then
                 st1\<lparr>isPanning := True, lastMousePos := \<lparr>pt_x = clientX, pt_y = clientY\<rparr>\<rparr>
               else st1)"

text \<open>
  \<^verbatim>\<open>onMouseMove\<close>. \<open>container\<close> is \<^verbatim>\<open>clientWidth\<close> and \<^verbatim>\<open>clientHeight\<close> of
  \<^verbatim>\<open>containerRef.current\<close>, \<open>None\<close> when the ref is empty. \<open>worldPt\<close> is
  \<^verbatim>\<open>pt.matrixTransform(ctm.inverse())\<close>, the pointer in drawing coordinates as
  the DOM computes it, \<open>None\<close> when \<^verbatim>\<open>svgRef.current\<close> or the matrix is missing.
\<close>

definition snap :: "number \<Rightarrow> number" where
  "snap v = n_mul (Math_round (n_div v (Fin (1 / 2)))) (Fin (1 / 2))"

definition onMouseMove ::
  "number \<Rightarrow> number \<Rightarrow> (number \<times> number) option \<Rightarrow> point option \<Rightarrow> canvas \<Rightarrow> canvas" where
  "onMouseMove clientX clientY container worldPt st =
     (let st1 =
        (if isPanning st \<and> activeTool st = tool_select then
           (case (viewState st, container) of
              (Some v, Some (clientWidth, clientHeight)) \<Rightarrow>
                let dxPx = n_sub clientX (pt_x (lastMousePos st));
                    dyPx = n_sub clientY (pt_y (lastMousePos st));
                    ratioX = n_div (vw v) clientWidth;
                    ratioY = n_div (vh v) clientHeight
                in st\<lparr>viewState := Some (v\<lparr>vx := n_sub (vx v) (n_mul dxPx ratioX),
                                              vy := n_sub (vy v) (n_mul dyPx ratioY)\<rparr>),
                      lastMousePos := \<lparr>pt_x = clientX, pt_y = clientY\<rparr>\<rparr>
            | _ \<Rightarrow> st)
         else st)
      in case (worldPt, viewState st) of
           (Some wp, Some v) \<Rightarrow>
             let finalX = (if snapEnabled st then snap (pt_x wp) else pt_x wp);
                 finalY = (if snapEnabled st then snap (pt_y wp) else pt_y wp);
                 newCursorPos = \<lparr>pt_x = finalX, pt_y = finalY\<rparr>
             in updateDrawingPreview newCursorPos (st1\<lparr>cursorPos := Some newCursorPos\<rparr>)
         | _ \<Rightarrow> st1)"

text \<open>\<^verbatim>\<open>onMouseUp\<close>, with the event's \<^verbatim>\<open>clientX\<close>, \<^verbatim>\<open>clientY\<close> and \<^verbatim>\<open>target\<close>.\<close>

definition shape_valid :: "ToolType \<Rightarrow> UserShape \<Rightarrow> bool" where
  "shape_valid tool cs =
     (if tool = draw_rect then
        (case data cs of Rect x0 y0 w h sX sY \<Rightarrow> n_gt w (Fin 0) | _ \<Rightarrow> False)
      else
        (case data cs of Circle c_x c_y r \<Rightarrow> n_gt r (Fin 0) | _ \<Rightarrow> False))"

definition onMouseUp :: "number \<Rightarrow> number \<Rightarrow> element \<Rightarrow> canvas \<Rightarrow> canvas" where
  "onMouseUp clientX clientY target st =
     (let st1 = st\<lparr>isPanning := False\<rparr>;
          st2 =
            (case currentShape st of
               Some cs \<Rightarrow>
                 if activeTool st = draw_rect \<or> activeTool st = draw_circle then
                   (if shape_valid (activeTool st) cs
                    then (saveState st1)\<lparr>userShapes := userShapes st @ [cs]\<rparr>
                    else st1)\<lparr>currentShape := None\<rparr>
                 else st1
             | None \<Rightarrow> st1);
          st3 =
            (if activeTool st = tool_select then
               (case dragStartRef st of
                  Some d \<Rightarrow>
                    let dx = n_sub clientX (pt_x d);
                        dy = n_sub clientY (pt_y d)
                    in if n_less (Math_hypot dx dy) (Fin 5)
                       then handleElementClick target st2 else st2
                | None \<Rightarrow> st2)
             else st2)
      in st3\<lparr>dragStartRef := None\<rparr>)"

text \<open>\<^verbatim>\<open>onMouseLeave={(e) => { onMouseUp(e); setCursorPos(null); }}\<close>\<close>

definition onMouseLeave :: "number \<Rightarrow> number \<Rightarrow> element \<Rightarrow> canvas \<Rightarrow> canvas" where
  "onMouseLeave clientX clientY target st =
     (onMouseUp clientX clientY target st)\<lparr>cursorPos := None\<rparr>"

definition onDoubleClick :: "canvas \<Rightarrow> canvas" where
  "onDoubleClick st =
     (case currentShape st of
        Some cs \<Rightarrow>
          if activeTool st = draw_polyline
          then (saveState st)\<lparr>userShapes := userShapes st @ [cs], currentShape := None\<rparr>
          else st
      | None \<Rightarrow> st)"

section \<open>Toolbar\<close>

definition clearMeasurements :: "canvas \<Rightarrow> canvas" where
  "clearMeasurements st = st\<lparr>measurements := [], measureStart := None\<rparr>"

definition clearUserShapes :: "canvas \<Rightarrow> canvas" where
  "clearUserShapes st =
     (if 0 < length (userShapes st) then saveState st else st)
       \<lparr>userShapes := [], currentShape := None, drawStep := 0\<rparr>"

text \<open>The \<^verbatim>\<open>onClick\<close> handlers of the seven buttons of the tool palette.\<close>

fun paletteClick :: "ToolType \<Rightarrow> canvas \<Rightarrow> canvas" where
  "paletteClick tool_select st = st\<lparr>activeTool := tool_select\<rparr>"
| "paletteClick tool_measure st = st\<lparr>activeTool := tool_measure, measureStart := None\<rparr>"
| "paletteClick draw_rect st = st\<lparr>activeTool := draw_rect, currentShape := None\<rparr>"
| "paletteClick draw_circle st = st\<lparr>activeTool := draw_circle, currentShape := None\<rparr>"
| "paletteClick draw_polyline st = st\<lparr>activeTool := draw_polyline, currentShape := None\<rparr>"
| "paletteClick draw_arc st =
     st\<lparr>activeTool := draw_arc, currentShape := None, drawStep := 0\<rparr>"
| "paletteClick tool_detail st = st\<lparr>activeTool := tool_detail\<rparr>"


text \<open>The state of the \<^verbatim>\<open>useState\<close> initialisers, before the first effect.\<close>

definition initial :: canvas where
  "initial =
     \<lparr>viewState = None, isPanning = False,
      lastMousePos = \<lparr>pt_x = Fin 0, pt_y = Fin 0\<rparr>, snapEnabled = True,
      cursorPos = None, activeTool = tool_select, measureStart = None,
      measurements = [], detailInput = [], userShapes = [], currentShape = None,
      drawStep = 0, history = [], future = [], selectedElement = None,
      dragStartRef = None\<rparr>"

section \<open>Rendering\<close>

text \<open>
  What a render of \<^verbatim>\<open>Canvas\<close> shows of the props and the state: the drawing
  (\<^verbatim>\<open>svgContent\<close>), the \<^verbatim>\<open>viewBox\<close> attribute (\<^verbatim>\<open>currentViewBoxStr\<close>: the
  viewport of the state, or the prop while there is none), the shapes
  (\<^verbatim>\<open>[...userShapes, currentShape].filter(Boolean)\<close>), the measurements and
  the selection.
\<close>

record props =
  svgContent :: "string option"
  viewBox :: js_string

datatype viewBox_attr = FromState viewport | FromProp js_string

record frame =
  shown_content :: "string option"
  shown_viewBox :: viewBox_attr
  shown_shapes :: "UserShape list"
  shown_measurements :: "Measurement list"
  shown_selection :: "SelectedElement option"

definition render :: "props \<Rightarrow> canvas \<Rightarrow> frame" where
  "render p st =
     \<lparr>shown_content = svgContent p,
      shown_viewBox = (case viewState st of Some v \<Rightarrow> FromState v | None \<Rightarrow> FromProp (viewBox p)),
      shown_shapes = userShapes st @ (case currentShape st of Some cs \<Rightarrow> [cs] | None \<Rightarrow> []),
      shown_measurements = measurements st,
      shown_selection = selectedElement st\<rparr>"

text \<open>
  New props with another bounds string. React calls the component with the new
  props and the state as it is and commits that render; the effect, whose
  dependency has changed, runs after the commit, and its updates of the state
  lead to a second render. The renders, in order, and the state after them.
\<close>

definition bounds_change :: "props \<Rightarrow> canvas \<Rightarrow> frame list \<times> canvas" where
  "bounds_change p st =
     (let st' = resetEffect (viewBox p) st
      in ([render p st, render p st'], st'))"

section \<open>Pointer gestures\<close>

text \<open>
  The data of one pointer event over the mounted drawing, and the handlers on
  it. A click at a position is a move to it, a button press and a release.
\<close>

record pointer =
  ev_clientX :: number
  ev_clientY :: number
  ev_container :: "(number \<times> number) option"
  ev_world :: point
  ev_target :: element
  ev_now :: string

definition move :: "pointer \<Rightarrow> canvas \<Rightarrow> canvas" where
  "move e = onMouseMove (ev_clientX e) (ev_clientY e) (ev_container e) (Some (ev_world e))"

definition press :: "pointer \<Rightarrow> canvas \<Rightarrow> canvas" where
  "press e = onMouseDown 0 (ev_clientX e) (ev_clientY e) (ev_now e)"

definition release :: "pointer \<Rightarrow> canvas \<Rightarrow> canvas" where
  "release e = onMouseUp (ev_clientX e) (ev_clientY e) (ev_target e)"

definition leave :: "pointer \<Rightarrow> canvas \<Rightarrow> canvas" where
  "leave e = onMouseLeave (ev_clientX e) (ev_clientY e) (ev_target e)"

definition click :: "pointer \<Rightarrow> canvas \<Rightarrow> canvas" where
  "click e st = release e (press e (move e st))"

text \<open>The cursor position that \<open>move\<close> stores: the pointer, snapped when snapping is on.\<close>

definition cursor_at :: "canvas \<Rightarrow> pointer \<Rightarrow> point" where
  "cursor_at st e =
     \<lparr>pt_x = (if snapEnabled st then snap (pt_x (ev_world e)) else pt_x (ev_world e)),
      pt_y = (if snapEnabled st then snap (pt_y (ev_world e)) else pt_y (ev_world e))\<rparr>"

text \<open>The number of vertices of a polyline; the other shapes have no vertex list.\<close>

definition vertex_count :: "UserShape \<Rightarrow> nat" where
  "vertex_count s = (case data s of Polyline pts \<Rightarrow> length pts | _ \<Rightarrow> 0)"

text \<open>An element and its ancestors, from the element upwards.\<close>

fun ancestors :: "element \<Rightarrow> element list" where
  "ancestors (Element a t r b p) =
     Element a t r b p # (case p of None \<Rightarrow> [] | Some q \<Rightarrow> ancestors q)"

text \<open>
  The wording of the specification for the bounds: a string is well formed when
  it has exactly four tokens and each of them is numeric.
\<close>

definition four_numeric_tokens :: "js_string \<Rightarrow> bool" where
  "four_numeric_tokens s =
     (length (split_ws (trim s)) = 4 \<and> list_all (\<lambda>t. js_Number t \<noteq> NaN) (split_ws (trim s)))"

section \<open>A session\<close>

text \<open>
  Concrete inputs: the canvas mounted on the bounds \<^verbatim>\<open>0 0 100 100\<close>, the
  background rectangle under the canvas root, and a pointer at a position of
  the drawing (in a container of 800 by 600 pixels the drawing is scaled by
  6 and centred).
\<close>

definition ready :: canvas where
  "ready = resetEffect (ascii ''0 0 100 100'') initial"

definition no_box :: DOMRect where
  "no_box = \<lparr>bbox_x = Fin 0, bbox_y = Fin 0, bbox_width = Fin 0, bbox_height = Fin 0\<rparr>"

definition svg_root :: element where
  "svg_root = Element [(''viewBox'', ''0 0 100 100'')] ''svg'' True no_box None"

definition grid_layer :: element where
  "grid_layer = Element [(''id'', ''grid-layer'')] ''rect'' False no_box (Some svg_root)"

definition pointer_at :: "real \<Rightarrow> real \<Rightarrow> pointer" where
  "pointer_at a b =
     \<lparr>ev_clientX = Fin (100 + 6 * a), ev_clientY = Fin (6 * b),
      ev_container = Some (Fin 800, Fin 600),
      ev_world = \<lparr>pt_x = Fin a, pt_y = Fin b\<rparr>,
      ev_target = grid_layer, ev_now = ''1700000000000''\<rparr>"

definition ready_props :: props where
  "ready_props = \<lparr>svgContent = Some ''<path d=M0,0L10,0 />'',
                  viewBox = ascii ''0 0 100 100''\<rparr>"

text \<open>
  The rectangle tool is chosen, the button goes down at \<open>(0, 0)\<close> and the pointer
  is dragged to \<open>(a, b)\<close>; the button is still down.
\<close>

definition rect_drag :: "real \<Rightarrow> real \<Rightarrow> canvas" where
  "rect_drag a b =
     move (pointer_at a b) (press (pointer_at 0 0) (move (pointer_at 0 0)
       (paletteClick draw_rect ready)))"

text \<open>
  The polyline tool is chosen and the pointer clicks at \<open>(0, 0)\<close>, \<open>(1, 0)\<close> and
  \<open>(1, 1)\<close>.
\<close>

definition three_clicks :: canvas where
  "three_clicks =
     click (pointer_at 1 1) (click (pointer_at 1 0) (click (pointer_at 0 0)
       (paletteClick draw_polyline ready)))"

text \<open>
  The canvas after a rectangle from \<open>(0, 0)\<close> to \<open>(2, 3)\<close> was drawn and the
  distance from \<open>(0, 0)\<close> to \<open>(3, 4)\<close> was measured, and the props of the next
  drawing, with other bounds.
\<close>

definition annotated :: canvas where
  "annotated =
     click (pointer_at 3 4) (click (pointer_at 0 0) (paletteClick tool_measure
       (release (pointer_at 2 3) (rect_drag 2 3))))"

definition next_props :: props where
  "next_props = \<lparr>svgContent = Some ''<circle cx=5 cy=5 r=2 />'', viewBox = ascii ''0 0 50 50''\<rparr>"

text \<open>
  A beam of the drawing: a group with an identifier and a declared type, inside
  the group that holds the generated drawing.
\<close>

definition content_group :: element where
  "content_group = Element [(''class'', ''cad-geometry'')] ''g'' False no_box (Some svg_root)"

definition beam :: element where
  "beam =
     Element [(''id'', ''beam-1''), (''data-type'', ''beam''), (''stroke'', ''#22d3ee'')] ''g''
       False \<lparr>bbox_x = Fin 10, bbox_y = Fin 20, bbox_width = Fin 30, bbox_height = Fin 2\<rparr>
       (Some content_group)"

text \<open>
  A line of the drawing without an identifier, inside a group \<^verbatim>\<open>grid-major\<close>,
  inside a group \<^verbatim>\<open>arrow-tip\<close>, inside the beam.
\<close>

definition arrow_group :: element where
  "arrow_group = Element [(''id'', ''arrow-tip'')] ''g'' False no_box (Some beam)"

definition grid_group :: element where
  "grid_group = Element [(''id'', ''grid-major'')] ''g'' False no_box (Some arrow_group)"

definition plain_line :: element where
  "plain_line = Element [(''stroke'', ''#facc15'')] ''line'' False no_box (Some grid_group)"

text \<open>
  A circle, and the canvas after the circle was committed and the commit undone:
  the shape list and the undo stack are empty, the redo stack holds the circle.
\<close>

definition unit_circle :: UserShape where
  "unit_circle = \<lparr>shape_id = ''1'', color = ''#10b981'', data = Circle (Fin 0) (Fin 0) (Fin 1)\<rparr>"

definition undone :: canvas where
  "undone = handleUndo (commit [unit_circle] ready)"

text \<open>The node that lies \<open>k\<close> plain groups below an element.\<close>

fun nested :: "nat \<Rightarrow> element \<Rightarrow> element" where
  "nested 0 el = el"
| "nested (Suc k) el = Element [] ''g'' False no_box (Some (nested k el))"

section \<open>Undo and redo: the history round trip\<close>

lemma fold_commit:
  "fold commit news st =
     (if news = [] then st
      else st\<lparr>history := history st @ butlast (userShapes st # news),
              future := [], userShapes := last news\<rparr>)"
proof (induction news arbitrary: st)
  case Nil
  show ?case by simp
next
  case (Cons n ns)
  have parts: "history (commit n st) = history st @ [userShapes st]"
    "userShapes (commit n st) = n"
    by (simp_all add: commit_def saveState_def)
  have whole: "commit n st =
      st\<lparr>history := history st @ [userShapes st], future := [], userShapes := n\<rparr>"
    by (simp add: commit_def saveState_def)
  show ?case
    by (simp add: Cons.IH parts, simp add: whole)
qed

text \<open>Undoing as many times as \<open>history\<close> has frames above \<open>h\<close>.\<close>

lemma undo_steps:
  "history st = h @ xs \<Longrightarrow>
   (handleUndo ^^ length xs) st =
     (if xs = [] then st
      else st\<lparr>future := tl (xs @ [userShapes st]) @ future st,
              userShapes := hd xs, history := h\<rparr>)"
proof (induction xs arbitrary: st rule: rev_induct)
  case Nil
  show ?case by simp
next
  case (snoc x xs)
  have step: "handleUndo st =
      st\<lparr>future := userShapes st # future st, userShapes := x, history := h @ xs\<rparr>"
    using snoc.prems by (simp add: handleUndo_def butlast_append)
  have "(handleUndo ^^ length (xs @ [x])) st = (handleUndo ^^ length xs) (handleUndo st)"
    by (simp add: funpow_swap1)
  also have "\<dots> =
      (if xs = [] then handleUndo st
       else (handleUndo st)
         \<lparr>future := tl (xs @ [userShapes (handleUndo st)]) @ future (handleUndo st),
          userShapes := hd xs, history := h\<rparr>)"
    by (rule snoc.IH) (simp add: step)
  finally show ?case
    by (cases xs) (simp_all add: step)
qed

text \<open>Redoing as many times as \<open>future\<close> has frames before \<open>f\<close>.\<close>

lemma redo_steps:
  "future st = ys @ f \<Longrightarrow>
   (handleRedo ^^ length ys) st =
     (if ys = [] then st
      else st\<lparr>history := history st @ butlast (userShapes st # ys),
              userShapes := last ys, future := f\<rparr>)"
proof (induction ys arbitrary: st)
  case Nil
  show ?case by simp
next
  case (Cons y ys)
  have step: "handleRedo st =
      st\<lparr>history := history st @ [userShapes st], userShapes := y, future := ys @ f\<rparr>"
    using Cons.prems by (simp add: handleRedo_def)
  have "(handleRedo ^^ length (y # ys)) st = (handleRedo ^^ length ys) (handleRedo st)"
    by (simp add: funpow_swap1)
  also have "\<dots> =
      (if ys = [] then handleRedo st
       else (handleRedo st)
         \<lparr>history := history (handleRedo st) @ butlast (userShapes (handleRedo st) # ys),
          userShapes := last ys, future := f\<rparr>)"
    by (rule Cons.IH) (simp add: step)
  finally show ?case
    by (simp add: step)
qed

text \<open>
  After \<open>n\<close> commits, \<open>n\<close> undos give back the state before the first commit, with the
  committed lists waiting in \<open>future\<close>.
\<close>

lemma undo_all:
  "(handleUndo ^^ length news) (fold commit news st) =
     (if news = [] then st else st\<lparr>future := news\<rparr>)"
proof (cases "news = []")
  case True
  then show ?thesis by simp
next
  case False
  let ?st' = "fold commit news st"
  let ?xs = "butlast (userShapes st # news)"
  have h: "history ?st' = history st @ ?xs" and u: "userShapes ?st' = last news"
    and f: "future ?st' = []"
    using False by (simp_all add: fold_commit)
  have len: "length ?xs = length news" by simp
  have xs: "?xs \<noteq> []" using False by (cases news) simp_all
  have app: "?xs @ [last news] = userShapes st # news"
    using False by (metis append_butlast_last_id last_ConsR list.distinct(1))
  have "(handleUndo ^^ length ?xs) ?st' =
      ?st'\<lparr>future := tl (?xs @ [userShapes ?st']) @ future ?st',
           userShapes := hd ?xs, history := history st\<rparr>"
    using undo_steps [OF h] xs by simp
  also have "\<dots> = st\<lparr>future := news\<rparr>"
    using False by (simp add: u f app fold_commit)
  finally show ?thesis using False len by simp
qed

text \<open>
  The four places that commit: the double click on a polyline, the release of a
  valid rectangle or circle, the third click of an arc, and the eraser on a list
  that is not empty.
\<close>

lemma handlers_commit:
  "activeTool st = draw_polyline \<Longrightarrow> currentShape st = Some cs \<Longrightarrow>
     onDoubleClick st = (commit (userShapes st @ [cs]) st)\<lparr>currentShape := None\<rparr>"
  "userShapes st \<noteq> [] \<Longrightarrow>
     clearUserShapes st = (commit [] st)\<lparr>currentShape := None, drawStep := 0\<rparr>"
  "drawStep st = 2 \<Longrightarrow> currentShape st = Some cs \<Longrightarrow>
     handleDrawingStart draw_arc pos now st =
       (commit (userShapes st @ [cs]) st)\<lparr>currentShape := None, drawStep := 0\<rparr>"
  "activeTool st = draw_rect \<or> activeTool st = draw_circle \<Longrightarrow> currentShape st = Some cs \<Longrightarrow>
     shape_valid (activeTool st) cs \<Longrightarrow>
     onMouseUp cX cY tg st =
       (commit (userShapes st @ [cs]) st)
         \<lparr>isPanning := False, currentShape := None, dragStartRef := None\<rparr>"
  by (auto simp add: onDoubleClick_def clearUserShapes_def handleDrawingStart_def onMouseUp_def
      commit_def saveState_def Let_def)

text \<open>
  C1. A commit pushes the shape list of before onto the undo stack, empties the
  redo stack and adopts the new list. Take any state and commit \<open>n\<close> new shape
  lists in a row: the redo stack is empty afterwards, whatever it held before.
  Undoing \<open>n\<close> times restores the shape list (and the undo stack) of the state
  before the first commit, with the \<open>n\<close> committed lists, and nothing else, on
  the redo stack; redoing \<open>n\<close> times after that gives back the state after the
  last commit. An undo with an empty undo stack and a redo with an empty redo
  stack change nothing.
\<close>

theorem history_round_trip:
  "userShapes (commit new st) = new
   \<and> history (commit new st) = history st @ [userShapes st]
   \<and> future (commit new st) = []
   \<and> history (saveState st) = history st @ [userShapes st]
   \<and> future (saveState st) = []
   \<and> (news \<noteq> [] \<longrightarrow> future (fold commit news st) = [])
   \<and> userShapes ((handleUndo ^^ length news) (fold commit news st)) = userShapes st
   \<and> history ((handleUndo ^^ length news) (fold commit news st)) = history st
   \<and> (news \<noteq> [] \<longrightarrow> future ((handleUndo ^^ length news) (fold commit news st)) = news)
   \<and> (handleRedo ^^ length news) ((handleUndo ^^ length news) (fold commit news st))
       = fold commit news st
   \<and> (history st = [] \<longrightarrow> handleUndo st = st)
   \<and> (future st = [] \<longrightarrow> handleRedo st = st)"
proof -
  have redo: "(handleRedo ^^ length news) (st\<lparr>future := news\<rparr>) = fold commit news st"
    if "news \<noteq> []"
    using redo_steps [of "st\<lparr>future := news\<rparr>" news "[]"] that
    by (simp add: fold_commit)
  have one: "userShapes (commit new st) = new"
    "history (commit new st) = history st @ [userShapes st]"
    "future (commit new st) = []"
    "history (saveState st) = history st @ [userShapes st]"
    "future (saveState st) = []"
    by (simp_all add: commit_def saveState_def)
  have many: "news \<noteq> [] \<longrightarrow> future (fold commit news st) = []"
    by (simp add: fold_commit)
  have rest: "userShapes ((handleUndo ^^ length news) (fold commit news st)) = userShapes st
   \<and> history ((handleUndo ^^ length news) (fold commit news st)) = history st
   \<and> (news \<noteq> [] \<longrightarrow> future ((handleUndo ^^ length news) (fold commit news st)) = news)
   \<and> (handleRedo ^^ length news) ((handleUndo ^^ length news) (fold commit news st))
       = fold commit news st
   \<and> (history st = [] \<longrightarrow> handleUndo st = st)
   \<and> (future st = [] \<longrightarrow> handleRedo st = st)"
    using redo by (simp add: undo_all handleUndo_def handleRedo_def)
  show ?thesis
    by (intro conjI one many) (use rest in blast)+
qed

text \<open>
  The round trip at a concrete input. The start is the canvas whose redo stack
  holds an undone circle. Two commits, of a rectangle and then of the empty
  list, empty the redo stack; two undos empty the shape list again and leave
  the two committed lists on the redo stack; the first redo brings the
  rectangle back. On the initial state undo and redo change nothing.
\<close>

theorem history_round_trip_witness:
  "future undone = [[unit_circle]]
   \<and> future (commit [unit_circle\<lparr>shape_id := ''2''\<rparr>] undone) = []
   \<and> history (commit [unit_circle\<lparr>shape_id := ''2''\<rparr>] undone) = [[]]
   \<and> [[unit_circle\<lparr>shape_id := ''2''\<rparr>], []] \<noteq> []
   \<and> future (fold commit [[unit_circle\<lparr>shape_id := ''2''\<rparr>], []] undone) = []
   \<and> userShapes ((handleUndo ^^ 2)
        (fold commit [[unit_circle\<lparr>shape_id := ''2''\<rparr>], []] undone)) = []
   \<and> future ((handleUndo ^^ 2)
        (fold commit [[unit_circle\<lparr>shape_id := ''2''\<rparr>], []] undone))
       = [[unit_circle\<lparr>shape_id := ''2''\<rparr>], []]
   \<and> userShapes ((handleRedo ^^ 1) ((handleUndo ^^ 2)
        (fold commit [[unit_circle\<lparr>shape_id := ''2''\<rparr>], []] undone)))
       = [unit_circle\<lparr>shape_id := ''2''\<rparr>]
   \<and> history initial = [] \<and> handleUndo initial = initial
   \<and> future initial = [] \<and> handleRedo initial = initial"
proof -
  have u: "userShapes undone = []" "history undone = []" "future undone = [[unit_circle]]"
    by (simp_all add: undone_def commit_def saveState_def handleUndo_def ready_def
        resetEffect_def initial_def)
  show ?thesis
    using history_round_trip
      [of "[unit_circle\<lparr>shape_id := ''2''\<rparr>]" undone
          "[[unit_circle\<lparr>shape_id := ''2''\<rparr>], []]"]
      history_round_trip [of "[]" initial "[]"]
    by (simp add: u initial_def numeral_2_eq_2 commit_def saveState_def handleUndo_def
        handleRedo_def)
qed

section \<open>Undo and redo: what they leave alone\<close>

text \<open>
  C10. \<open>handleUndo\<close> and \<open>handleRedo\<close> write the shape list and the two history
  stacks only: the viewport, the measurements, the selection, the active tool,
  the draw step, the shape in progress and every other field of the state are
  the same after any undo and after any redo.
\<close>

theorem undo_redo_frame:
  "viewState (handleUndo st) = viewState st
   \<and> measurements (handleUndo st) = measurements st
   \<and> selectedElement (handleUndo st) = selectedElement st
   \<and> activeTool (handleUndo st) = activeTool st
   \<and> drawStep (handleUndo st) = drawStep st
   \<and> currentShape (handleUndo st) = currentShape st
   \<and> measureStart (handleUndo st) = measureStart st
   \<and> cursorPos (handleUndo st) = cursorPos st
   \<and> snapEnabled (handleUndo st) = snapEnabled st
   \<and> isPanning (handleUndo st) = isPanning st
   \<and> lastMousePos (handleUndo st) = lastMousePos st
   \<and> detailInput (handleUndo st) = detailInput st
   \<and> dragStartRef (handleUndo st) = dragStartRef st
   \<and> viewState (handleRedo st) = viewState st
   \<and> measurements (handleRedo st) = measurements st
   \<and> selectedElement (handleRedo st) = selectedElement st
   \<and> activeTool (handleRedo st) = activeTool st
   \<and> drawStep (handleRedo st) = drawStep st
   \<and> currentShape (handleRedo st) = currentShape st
   \<and> measureStart (handleRedo st) = measureStart st
   \<and> cursorPos (handleRedo st) = cursorPos st
   \<and> snapEnabled (handleRedo st) = snapEnabled st
   \<and> isPanning (handleRedo st) = isPanning st
   \<and> lastMousePos (handleRedo st) = lastMousePos st
   \<and> detailInput (handleRedo st) = detailInput st
   \<and> dragStartRef (handleRedo st) = dragStartRef st"
  by (simp add: handleUndo_def handleRedo_def Let_def)

section \<open>Evaluating sessions\<close>

lemmas session_defs = ready_def resetEffect_def initial_def pointer_at_def grid_layer_def
  svg_root_def no_box_def

lemmas gesture_defs = click_def move_def press_def release_def leave_def onMouseLeave_def
  onMouseMove_def
  onMouseDown_def onMouseUp_def handleDrawingStart_def updateDrawingPreview_def
  cursor_at_def snap_def n_sub_def n_gt_def shape_valid_def handleElementClick_def
  is_background_def el_id_def saveState_def double_0_01_def Let_def

lemmas parse_defs = baseViewBox_def split_ws_def trim_def is_ws_def js_Number_def ascii_def
  overflow_def
  parse_unsigned_def parse_mantissa_def parse_exponent_def parse_digits_def parse_radix_def
  digit_of_def

lemma length_baseViewBox: "length (baseViewBox s) = 4"
  by (simp add: baseViewBox_def Let_def)

text \<open>The default bounds.\<close>

lemma base_100:
  "base_viewport (ascii ''0 0 100 100'') = \<lparr>vx = Fin 0, vy = Fin 0, vw = Fin 100, vh = Fin 100\<rparr>"
  by (simp add: base_viewport_def parse_defs)

lemma sqrt_25: "sqrt 25 = 5"
  by (rule real_sqrt_unique) simp_all

section \<open>The polyline tool\<close>

text \<open>The first click with the polyline tool seeds two copies of the clicked point.\<close>

lemma first_click:
  assumes "activeTool st = draw_polyline" "currentShape st = None" "viewState st = Some v"
  shows "click e st = st\<lparr>cursorPos := Some (cursor_at st e),
           currentShape := Some \<lparr>shape_id = ev_now e, color = ''#10b981'',
              data = Polyline [cursor_at st e, cursor_at st e]\<rparr>,
           isPanning := False, dragStartRef := None\<rparr>"
  using assms
  by (simp add: click_def move_def press_def release_def onMouseMove_def onMouseDown_def
      onMouseUp_def handleDrawingStart_def updateDrawingPreview_def cursor_at_def Let_def)

text \<open>A later click moves the live last vertex to the pointer and appends a copy of it.\<close>

lemma next_click:
  assumes "activeTool st = draw_polyline"
    "currentShape st = Some \<lparr>shape_id = i, color = c, data = Polyline (ps @ [q])\<rparr>"
    "viewState st = Some v"
  shows "click e st = st\<lparr>cursorPos := Some (cursor_at st e),
           currentShape := Some \<lparr>shape_id = i, color = c,
              data = Polyline (ps @ [cursor_at st e, cursor_at st e])\<rparr>,
           isPanning := False, dragStartRef := None\<rparr>"
  using assms
  by (simp add: click_def move_def press_def release_def onMouseMove_def onMouseDown_def
      onMouseUp_def handleDrawingStart_def updateDrawingPreview_def cursor_at_def Let_def)

text \<open>After \<open>k\<close> clicks the shape in progress has the \<open>k\<close> clicked points and the live vertex.\<close>

lemma polyline_clicks:
  assumes "activeTool st = draw_polyline" "currentShape st = None" "viewState st = Some v"
    "es \<noteq> []"
  shows "fold click es st = st\<lparr>cursorPos := Some (cursor_at st (last es)),
           currentShape := Some \<lparr>shape_id = ev_now (hd es), color = ''#10b981'',
              data = Polyline (map (cursor_at st) es @ [cursor_at st (last es)])\<rparr>,
           isPanning := False, dragStartRef := None\<rparr>"
  using assms(4)
proof (induction es rule: rev_induct)
  case Nil
  then show ?case by simp
next
  case (snoc e es)
  show ?case
  proof (cases "es = []")
    case True
    then show ?thesis using first_click [OF assms(1-3), of e] by simp
  next
    case False
    let ?s = "fold click es st"
    have s: "?s = st\<lparr>cursorPos := Some (cursor_at st (last es)),
           currentShape := Some \<lparr>shape_id = ev_now (hd es), color = ''#10b981'',
              data = Polyline (map (cursor_at st) es @ [cursor_at st (last es)])\<rparr>,
           isPanning := False, dragStartRef := None\<rparr>"
      using snoc.IH False by simp
    have c: "cursor_at ?s e = cursor_at st e"
      by (simp add: s cursor_at_def)
    have "click e ?s = ?s\<lparr>cursorPos := Some (cursor_at ?s e),
           currentShape := Some \<lparr>shape_id = ev_now (hd es), color = ''#10b981'',
              data = Polyline (map (cursor_at st) es @ [cursor_at ?s e, cursor_at ?s e])\<rparr>,
           isPanning := False, dragStartRef := None\<rparr>"
      by (rule next_click [where v = v and q = "cursor_at st (last es)"])
         (simp_all add: s assms)
    then show ?thesis using False
      by (simp add: c, simp add: s)
  qed
qed

text \<open>
  C2, as the code has it. With the polyline tool and no shape in progress, \<open>k \<ge> 1\<close>
  clicks (the pointer moves to each position, which moves only the live last
  vertex) followed by the double-click handler commit exactly one polyline. Its
  vertex list is the \<open>k\<close> clicked points followed by the live last vertex, which
  is kept: \<open>k + 1\<close> vertices. Exactly one history frame is pushed, the redo
  stack is emptied and no shape stays in progress.
\<close>

theorem polyline_commit:
  assumes "activeTool st = draw_polyline" and "currentShape st = None"
    and "viewState st = Some v" and "es \<noteq> []"
  shows "userShapes (onDoubleClick (fold click es st)) =
           userShapes st @
             [\<lparr>shape_id = ev_now (hd es), color = ''#10b981'',
               data = Polyline (map (cursor_at st) es @ [cursor_at st (last es)])\<rparr>]
         \<and> map vertex_count (userShapes (onDoubleClick (fold click es st))) =
             map vertex_count (userShapes st) @ [length es + 1]
         \<and> history (onDoubleClick (fold click es st)) = history st @ [userShapes st]
         \<and> future (onDoubleClick (fold click es st)) = []
         \<and> currentShape (onDoubleClick (fold click es st)) = None"
  using assms(1)
  by (simp add: polyline_clicks [OF assms] onDoubleClick_def saveState_def vertex_count_def)

text \<open>
  The three clicks at \<open>(0, 0)\<close>, \<open>(1, 0)\<close>, \<open>(1, 1)\<close> on the mounted canvas: the
  committed polyline has the vertices \<open>(0, 0)\<close>, \<open>(1, 0)\<close>, \<open>(1, 1)\<close>, \<open>(1, 1)\<close>.
\<close>

theorem polyline_commit_witness:
  "activeTool (paletteClick draw_polyline ready) = draw_polyline
   \<and> currentShape (paletteClick draw_polyline ready) = None
   \<and> viewState (paletteClick draw_polyline ready)
       = Some \<lparr>vx = Fin 0, vy = Fin 0, vw = Fin 100, vh = Fin 100\<rparr>
   \<and> map data (userShapes (onDoubleClick
        (fold click [pointer_at 0 0, pointer_at 1 0, pointer_at 1 1]
           (paletteClick draw_polyline ready)))) =
       [Polyline [\<lparr>pt_x = Fin 0, pt_y = Fin 0\<rparr>, \<lparr>pt_x = Fin 1, pt_y = Fin 0\<rparr>,
                  \<lparr>pt_x = Fin 1, pt_y = Fin 1\<rparr>, \<lparr>pt_x = Fin 1, pt_y = Fin 1\<rparr>]]
   \<and> history (onDoubleClick
        (fold click [pointer_at 0 0, pointer_at 1 0, pointer_at 1 1]
           (paletteClick draw_polyline ready))) = [[]]"
proof -
  have h: "activeTool (paletteClick draw_polyline ready) = draw_polyline"
    "currentShape (paletteClick draw_polyline ready) = None"
    "viewState (paletteClick draw_polyline ready)
       = Some \<lparr>vx = Fin 0, vy = Fin 0, vw = Fin 100, vh = Fin 100\<rparr>"
    "[pointer_at 0 0, pointer_at 1 0, pointer_at 1 1] \<noteq> []"
    by (simp_all add: ready_def resetEffect_def initial_def base_100)
  show ?thesis
    using polyline_commit [OF h] h(1-3)
    by (simp add: cursor_at_def snap_def pointer_at_def ready_def resetEffect_def initial_def)
qed

text \<open>
  C2 as the specification states it asks for exactly 3 vertices. After the three
  clicks the double-click handler commits 4. A double click in a browser
  delivers two more button presses before \<^verbatim>\<open>dblclick\<close>; with them the polyline
  has 6 vertices.
\<close>

theorem polyline_commit_counterexample:
  "map vertex_count (userShapes (onDoubleClick three_clicks)) = [4]
   \<and> map vertex_count (userShapes (onDoubleClick three_clicks)) \<noteq> [3]
   \<and> map vertex_count (userShapes (onDoubleClick
        (release (pointer_at 1 1) (press (pointer_at 1 1)
        (release (pointer_at 1 1) (press (pointer_at 1 1) three_clicks)))))) = [6]"
  by (simp add: three_clicks_def session_defs gesture_defs onDoubleClick_def vertex_count_def)

section \<open>Switching tools\<close>

text \<open>No palette button touches the shape list or the history stacks.\<close>

lemma paletteClick_frame:
  "userShapes (paletteClick t st) = userShapes st
   \<and> history (paletteClick t st) = history st
   \<and> future (paletteClick t st) = future st"
  by (cases t) simp_all

text \<open>The four drawing buttons drop the shape in progress; the other three keep it.\<close>

lemma paletteClick_currentShape:
  "currentShape (paletteClick t st) = (if is_draw_tool t then None else currentShape st)"
  by (cases t) simp_all

text \<open>
  C3. A rectangle is being dragged from \<open>(0, 0)\<close> to \<open>(2, 3)\<close> when the select
  button of the palette is activated. The shape list and the history are
  untouched, but the rectangle in progress is not discarded: it is still the
  current shape and the next render still shows it. The same happens to a
  polyline in progress when the pointer leaves the drawing and clicks the
  select button. The button of another drawing tool does discard the shape.
\<close>

theorem tool_switch_keeps_shape:
  "currentShape (paletteClick tool_select (rect_drag 2 3))
     = Some \<lparr>shape_id = ''1700000000000'', color = ''#10b981'',
             data = Rect (Fin 0) (Fin 0) (Fin 2) (Fin 3) (Fin 0) (Fin 0)\<rparr>
   \<and> shown_shapes (render ready_props (paletteClick tool_select (rect_drag 2 3)))
     = [\<lparr>shape_id = ''1700000000000'', color = ''#10b981'',
         data = Rect (Fin 0) (Fin 0) (Fin 2) (Fin 3) (Fin 0) (Fin 0)\<rparr>]
   \<and> userShapes (paletteClick tool_select (rect_drag 2 3)) = []
   \<and> history (paletteClick tool_select (rect_drag 2 3)) = []
   \<and> map vertex_count (shown_shapes (render ready_props
        (paletteClick tool_select (leave (pointer_at 1 1) three_clicks)))) = [4]
   \<and> currentShape (paletteClick draw_circle (rect_drag 2 3)) = None"
  by (simp add: rect_drag_def three_clicks_def session_defs gesture_defs render_def
      vertex_count_def)

section \<open>Releasing a dragged shape\<close>

text \<open>
  On release with the rectangle or the circle tool the shape in progress is
  committed exactly when \<open>shape_valid\<close> holds: the width of a rectangle, the
  radius of a circle is greater than 0.
\<close>

lemma onMouseUp_drag_shape:
  assumes "activeTool st = draw_rect \<or> activeTool st = draw_circle"
    and "currentShape st = Some cs"
  shows "userShapes (onMouseUp cX cY tg st) =
           (if shape_valid (activeTool st) cs then userShapes st @ [cs] else userShapes st)"
    and "history (onMouseUp cX cY tg st) =
           (if shape_valid (activeTool st) cs then history st @ [userShapes st] else history st)"
    and "currentShape (onMouseUp cX cY tg st) = None"
  using assms by (auto simp add: onMouseUp_def saveState_def Let_def)

text \<open>
  C4. A rectangle dragged from \<open>(0, 0)\<close> to \<open>(2, 0)\<close> has width 2 and height 0.
  On release it is stored and a history frame is pushed, although its height is
  zero. The rectangle dragged to \<open>(0, 2)\<close>, of width 0, is discarded.
\<close>

theorem flat_rect_committed:
  "userShapes (release (pointer_at 2 0) (rect_drag 2 0))
     = [\<lparr>shape_id = ''1700000000000'', color = ''#10b981'',
         data = Rect (Fin 0) (Fin 0) (Fin 2) (Fin 0) (Fin 0) (Fin 0)\<rparr>]
   \<and> history (release (pointer_at 2 0) (rect_drag 2 0)) = [[]]
   \<and> userShapes (release (pointer_at 0 2) (rect_drag 0 2)) = []
   \<and> history (release (pointer_at 0 2) (rect_drag 0 2)) = []"
  by (simp add: rect_drag_def session_defs gesture_defs)

section \<open>The measure tool\<close>












text \<open>
  The threshold is the double nearest to one hundredth: it lies above one
  hundredth, by less than half a unit in its last place.
\<close>

lemma double_0_01_nearest:
  "1 / 100 < double_0_01" and "double_0_01 - 1 / 100 < 1 / 2 ^ 60"
  by (simp_all add: double_0_01_def)





section \<open>Hit test: depth bound and skipping\<close>

text \<open>The loop examines the first five nodes at most, stops at the canvas root, and
  returns the first candidate.\<close>

lemma walk_ancestors:
  "walk (Some el) d =
     map_option selection_of
       (List.find is_candidate (takeWhile (\<lambda>e. \<not> isSvgRef e) (take (5 - d) (ancestors el))))"
proof (induction el arbitrary: d)
  case (Element a t r b p)
  show ?case
  proof (cases "d < 5")
    case False
    then show ?thesis by (subst walk.simps) simp
  next
    case True
    then obtain m where m: "5 - d = Suc m" "5 - Suc d = m"
      by (cases "5 - d") auto
    show ?thesis
    proof (cases p)
      case None
      then show ?thesis using True m
        by (subst walk.simps) (simp add: walk.simps [of None])
    next
      case (Some q)
      then have "walk (Some q) (Suc d) =
        map_option selection_of
          (List.find is_candidate (takeWhile (\<lambda>e. \<not> isSvgRef e) (take m (ancestors q))))"
        using Element.IH [of q "Suc d"] m by simp
      then show ?thesis using True m Some
        by (subst walk.simps) simp
    qed
  qed
qed

lemma find_scan:
  "k < length xs \<Longrightarrow> k < n \<Longrightarrow> \<forall>i<k. \<not> P (xs ! i) \<Longrightarrow> \<forall>i\<le>k. Q (xs ! i) \<Longrightarrow> P (xs ! k) \<Longrightarrow>
   List.find P (takeWhile Q (take n xs)) = Some (xs ! k)"
proof (induction xs arbitrary: k n)
  case Nil
  then show ?case by simp
next
  case (Cons x xs)
  obtain n' where n: "n = Suc n'" using Cons.prems(2) by (cases n) auto
  show ?case
  proof (cases k)
    case 0
    then show ?thesis using Cons.prems n by simp
  next
    case (Suc k')
    have "List.find P (takeWhile Q (take n' xs)) = Some (xs ! k')"
    proof (rule Cons.IH)
      show "k' < length xs" using Cons.prems(1) Suc by simp
      show "k' < n'" using Cons.prems(2) Suc n by simp
      show "\<forall>i<k'. \<not> P (xs ! i)"
        using Cons.prems(3) Suc by (metis Suc_less_eq nth_Cons_Suc)
      show "\<forall>i\<le>k'. Q (xs ! i)"
        using Cons.prems(4) Suc by (metis Suc_le_mono nth_Cons_Suc)
      show "P (xs ! k')" using Cons.prems(5) Suc by simp
    qed
    moreover have "\<not> P x" "Q x"
      using Cons.prems(3,4) Suc by force+
    ultimately show ?thesis using n Suc by simp
  qed
qed

lemma find_none:
  assumes "\<forall>i<n. i < length xs \<longrightarrow> \<not> P (xs ! i)"
  shows "List.find P (takeWhile Q (take n xs)) = None"
proof -
  have "\<not> P x" if "x \<in> set (takeWhile Q (take n xs))" for x
  proof -
    from that have "x \<in> set (take n xs)" by (rule set_takeWhileD [THEN conjunct1])
    then obtain i where "i < length (take n xs)" "take n xs ! i = x"
      by (auto simp add: in_set_conv_nth)
    then show ?thesis using assms by auto
  qed
  then show ?thesis by (auto simp add: find_None_iff)
qed

text \<open>With attribute names that are all different, the copy of the attributes is the list itself.\<close>

lemma fold_update_distinct:
  "distinct (map fst (acc @ xs)) \<Longrightarrow> fold (\<lambda>(n, v). AList.update n v) xs acc = acc @ xs"
proof (induction xs arbitrary: acc)
  case Nil
  show ?case by simp
next
  case (Cons x xs)
  obtain n v where x: "x = (n, v)" by (cases x)
  have "n \<notin> fst ` set acc" using Cons.prems x by auto
  then have "AList.update n v acc = acc @ [(n, v)]"
    by (induction acc) auto
  moreover have "distinct (map fst ((acc @ [(n, v)]) @ xs))"
    using Cons.prems x by simp
  ultimately show ?case
    using Cons.IH [of "acc @ [(n, v)]"] x by simp
qed

text \<open>
  C8. A click on a background node (the canvas root, an \<^verbatim>\<open>svg\<close> tag, the node
  \<^verbatim>\<open>grid-layer\<close>) clears the selection. Any other click walks from the clicked
  node upwards through at most 5 nodes, stopping at the canvas root, skips every
  node whose identifier is empty or starts with \<^verbatim>\<open>grid\<close> or \<^verbatim>\<open>arrow\<close>, and
  selects the first node that is left. So an identified element \<open>k < 5\<close>
  ancestors above the click (4, for one) is selected when nothing nearer is
  identified, and when none of the first five nodes is identified (the nearest
  identified element is 5, 6 or more ancestors above) the selection is cleared.
  The selection carries the identifier of the node, its declared type or else
  its tag, its bounding box and its attributes.
\<close>

theorem hit_test:
  fixes t :: element and st :: canvas
  defines "bg \<equiv> isSvgRef t \<or> tagName t = ''svg'' \<or> el_id t = ''grid-layer''"
  defines "named \<equiv> \<lambda>e. el_id e \<noteq> [] \<and> take 4 (el_id e) \<noteq> ''grid''
                         \<and> take 5 (el_id e) \<noteq> ''arrow''"
  shows "(bg \<longrightarrow> selectedElement (handleElementClick t st) = None)
   \<and> (\<not> bg \<longrightarrow>
        selectedElement (handleElementClick t st) =
          map_option selection_of
            (List.find named (takeWhile (\<lambda>e. \<not> isSvgRef e) (take 5 (ancestors t))))
        \<and> (\<forall>k. k < 5 \<and> k < length (ancestors t)
               \<and> (\<forall>i<k. \<not> named (ancestors t ! i))
               \<and> (\<forall>i\<le>k. \<not> isSvgRef (ancestors t ! i))
               \<and> named (ancestors t ! k) \<longrightarrow>
             selectedElement (handleElementClick t st) = Some (selection_of (ancestors t ! k)))
        \<and> ((\<forall>i<5. i < length (ancestors t) \<longrightarrow> \<not> named (ancestors t ! i)) \<longrightarrow>
             selectedElement (handleElementClick t st) = None))
   \<and> (\<forall>e. el_id e = (case map_of (attributes e) ''id'' of None \<Rightarrow> [] | Some v \<Rightarrow> v)
          \<and> sel_id (selection_of e) = el_id e
          \<and> sel_type (selection_of e) =
              (case map_of (attributes e) ''data-type'' of
                 None \<Rightarrow> tagName e
               | Some v \<Rightarrow> if v = [] then tagName e else v)
          \<and> sel_bbox (selection_of e) = getBBox e
          \<and> (distinct (map fst (attributes e)) \<longrightarrow>
               sel_attributes (selection_of e) = attributes e))"
proof -
  have bg: "is_background t = bg"
    by (simp add: is_background_def bg_def)
  have named: "is_candidate = named"
    by (rule ext) (simp add: is_candidate_def named_def startsWith_def eval_nat_numeral)
  have sel: "selectedElement (handleElementClick t st) =
      map_option selection_of
        (List.find named (takeWhile (\<lambda>e. \<not> isSvgRef e) (take 5 (ancestors t))))"
    if "\<not> bg"
    using that walk_ancestors [of t 0]
    by (simp add: handleElementClick_def bg named split: option.splits)
  have hit: "selectedElement (handleElementClick t st) = Some (selection_of (ancestors t ! k))"
    if "\<not> bg" "k < 5" "k < length (ancestors t)"
      "\<forall>i<k. \<not> named (ancestors t ! i)" "\<forall>i\<le>k. \<not> isSvgRef (ancestors t ! i)"
      "named (ancestors t ! k)" for k
    using find_scan [of k "ancestors t" 5 named "\<lambda>e. \<not> isSvgRef e"] that
    by (simp add: sel)
  have miss: "selectedElement (handleElementClick t st) = None"
    if "\<not> bg" "\<forall>i<5. i < length (ancestors t) \<longrightarrow> \<not> named (ancestors t ! i)"
    using find_none [of 5 "ancestors t" named "\<lambda>e. \<not> isSvgRef e"] that
    by (simp add: sel)
  have rear: "selectedElement (handleElementClick t st) = None" if bg
    using that by (simp add: handleElementClick_def bg)
  have fields: "el_id e = (case map_of (attributes e) ''id'' of None \<Rightarrow> [] | Some v \<Rightarrow> v)
          \<and> sel_id (selection_of e) = el_id e
          \<and> sel_type (selection_of e) =
              (case map_of (attributes e) ''data-type'' of
                 None \<Rightarrow> tagName e
               | Some v \<Rightarrow> if v = [] then tagName e else v)
          \<and> sel_bbox (selection_of e) = getBBox e
          \<and> (distinct (map fst (attributes e)) \<longrightarrow>
               sel_attributes (selection_of e) = attributes e)" for e
    using fold_update_distinct [of "[]" "attributes e"]
    by (simp add: selection_of_def el_id_def element_type_def collect_attrs_def)
  show ?thesis using sel hit miss rear fields by blast
qed

lemmas element_defs = beam_def content_group_def svg_root_def no_box_def is_background_def
  is_candidate_def el_id_def startsWith_def selection_of_def element_type_def collect_attrs_def
  arrow_group_def grid_group_def plain_line_def

text \<open>
  A click 4 plain groups below the beam selects the beam; a click 5 or 6 groups
  below it selects nothing; a click on the background rectangle selects nothing. A
  click on the line selects the beam too: the groups \<^verbatim>\<open>grid-major\<close> and
  \<^verbatim>\<open>arrow-tip\<close> between them are skipped, also when the click is on the group
  \<^verbatim>\<open>grid-major\<close> itself.
\<close>

theorem hit_test_witness:
  "\<not> is_background (nested 4 beam)
   \<and> map el_id (ancestors (nested 4 beam)) = [[], [], [], [], ''beam-1'', [], []]
   \<and> map_option sel_id (selectedElement (handleElementClick (nested 4 beam) ready))
       = Some ''beam-1''
   \<and> map_option sel_type (selectedElement (handleElementClick (nested 4 beam) ready))
       = Some ''beam''
   \<and> \<not> is_background (nested 6 beam)
   \<and> map el_id (ancestors (nested 6 beam))
       = [[], [], [], [], [], [], ''beam-1'', [], []]
   \<and> selectedElement (handleElementClick (nested 6 beam) ready) = None
   \<and> map el_id (ancestors (nested 5 beam)) = [[], [], [], [], [], ''beam-1'', [], []]
   \<and> selectedElement (handleElementClick (nested 5 beam) ready) = None
   \<and> is_background grid_layer
   \<and> selectedElement (handleElementClick grid_layer ready) = None
   \<and> map el_id (ancestors plain_line) = [[], ''grid-major'', ''arrow-tip'', ''beam-1'', [], []]
   \<and> selectedElement (handleElementClick plain_line ready)
       = Some \<lparr>sel_id = ''beam-1'', sel_type = ''beam'',
               sel_attributes =
                 [(''id'', ''beam-1''), (''data-type'', ''beam''), (''stroke'', ''#22d3ee'')],
               sel_bbox = \<lparr>bbox_x = Fin 10, bbox_y = Fin 20, bbox_width = Fin 30,
                            bbox_height = Fin 2\<rparr>\<rparr>
   \<and> map_option sel_id (selectedElement (handleElementClick grid_group ready))
       = Some ''beam-1''"
proof -
  have ids: "map el_id (ancestors (nested 4 beam)) = [[], [], [], [], ''beam-1'', [], []]"
    "map el_id (ancestors (nested 6 beam))
       = [[], [], [], [], [], [], ''beam-1'', [], []]"
    "map el_id (ancestors plain_line) = [[], ''grid-major'', ''arrow-tip'', ''beam-1'', [], []]"
    by (simp_all add: eval_nat_numeral element_defs)
  have bg: "\<not> is_background (nested 4 beam)" "\<not> is_background (nested 6 beam)"
    "is_background grid_layer"
    by (simp_all add: eval_nat_numeral element_defs grid_layer_def)
  have nb: "\<not> (isSvgRef (nested 4 beam) \<or> tagName (nested 4 beam) = ''svg''
        \<or> el_id (nested 4 beam) = ''grid-layer'')"
    "\<not> (isSvgRef (nested 6 beam) \<or> tagName (nested 6 beam) = ''svg''
        \<or> el_id (nested 6 beam) = ''grid-layer'')"
    "isSvgRef grid_layer \<or> tagName grid_layer = ''svg'' \<or> el_id grid_layer = ''grid-layer''"
    "\<not> (isSvgRef plain_line \<or> tagName plain_line = ''svg'' \<or> el_id plain_line = ''grid-layer'')"
    "\<not> (isSvgRef grid_group \<or> tagName grid_group = ''svg'' \<or> el_id grid_group = ''grid-layer'')"
    by (simp_all add: eval_nat_numeral element_defs grid_layer_def)
  let ?named = "\<lambda>e. el_id e \<noteq> [] \<and> take 4 (el_id e) \<noteq> ''grid'' \<and> take 5 (el_id e) \<noteq> ''arrow''"
  have h4: "(4::nat) < 5" "4 < length (ancestors (nested 4 beam))"
    "\<forall>i<4. \<not> ?named (ancestors (nested 4 beam) ! i)"
    "\<forall>i\<le>4. \<not> isSvgRef (ancestors (nested 4 beam) ! i)"
    "?named (ancestors (nested 4 beam) ! 4)"
    by (simp_all add: eval_nat_numeral less_Suc_eq le_Suc_eq element_defs)
  have h6: "\<forall>i<5. i < length (ancestors (nested 6 beam)) \<longrightarrow>
      \<not> ?named (ancestors (nested 6 beam) ! i)"
    by (simp add: eval_nat_numeral less_Suc_eq element_defs)
  have n5: "\<not> (isSvgRef (nested 5 beam) \<or> tagName (nested 5 beam) = ''svg''
        \<or> el_id (nested 5 beam) = ''grid-layer'')"
    by (simp add: eval_nat_numeral element_defs)
  have i5: "map el_id (ancestors (nested 5 beam)) = [[], [], [], [], [], ''beam-1'', [], []]"
    by (simp add: eval_nat_numeral element_defs)
  have h5: "\<forall>i<5. i < length (ancestors (nested 5 beam)) \<longrightarrow>
      \<not> ?named (ancestors (nested 5 beam) ! i)"
    by (simp add: eval_nat_numeral less_Suc_eq element_defs)
  have hl: "(3::nat) < 5" "3 < length (ancestors plain_line)"
    "\<forall>i<3. \<not> ?named (ancestors plain_line ! i)"
    "\<forall>i\<le>3. \<not> isSvgRef (ancestors plain_line ! i)"
    "?named (ancestors plain_line ! 3)"
    by (simp_all add: eval_nat_numeral less_Suc_eq le_Suc_eq element_defs)
  have hg: "(2::nat) < 5" "2 < length (ancestors grid_group)"
    "\<forall>i<2. \<not> ?named (ancestors grid_group ! i)"
    "\<forall>i\<le>2. \<not> isSvgRef (ancestors grid_group ! i)"
    "?named (ancestors grid_group ! 2)"
    by (simp_all add: eval_nat_numeral less_Suc_eq le_Suc_eq element_defs)
  have at: "ancestors (nested 4 beam) ! 4 = beam" "ancestors plain_line ! 3 = beam"
    "ancestors grid_group ! 2 = beam"
    by (simp_all add: eval_nat_numeral beam_def arrow_group_def grid_group_def plain_line_def)
  have s4: "selectedElement (handleElementClick (nested 4 beam) ready)
      = Some (selection_of (ancestors (nested 4 beam) ! 4))"
    using hit_test [of "nested 4 beam" ready] nb(1) h4 by blast
  have s6: "selectedElement (handleElementClick (nested 6 beam) ready) = None"
    using hit_test [of "nested 6 beam" ready] nb(2) h6 by blast
  have s5: "selectedElement (handleElementClick (nested 5 beam) ready) = None"
    using hit_test [of "nested 5 beam" ready] n5 h5 by blast
  have sg: "selectedElement (handleElementClick grid_layer ready) = None"
    using hit_test [of grid_layer ready] nb(3) by blast
  have sl: "selectedElement (handleElementClick plain_line ready)
      = Some (selection_of (ancestors plain_line ! 3))"
    using hit_test [of plain_line ready] nb(4) hl by blast
  have sq: "selectedElement (handleElementClick grid_group ready)
      = Some (selection_of (ancestors grid_group ! 2))"
    using hit_test [of grid_group ready] nb(5) hg by blast
  have sel: "selection_of beam
      = \<lparr>sel_id = ''beam-1'', sel_type = ''beam'',
         sel_attributes =
           [(''id'', ''beam-1''), (''data-type'', ''beam''), (''stroke'', ''#22d3ee'')],
         sel_bbox = \<lparr>bbox_x = Fin 10, bbox_y = Fin 20, bbox_width = Fin 30,
                      bbox_height = Fin 2\<rparr>\<rparr>"
    by (simp add: element_defs)
  show ?thesis
    using ids bg s6 i5 s5 sg by (simp add: s4 sl sq at sel)
qed

section \<open>Zoom\<close>




section \<open>Parsing the bounds\<close>

text \<open>Splitting a string of pieces and separators gives the pieces.\<close>

lemma split_go_token:
  "\<forall>c\<in>set t. \<not> is_ws c \<Longrightarrow>
   split_go f cur (t @ rest) = split_go (if t = [] then f else False) (rev t @ cur) rest"
proof (induction t arbitrary: f cur)
  case Nil
  show ?case by simp
next
  case (Cons c t)
  then show ?case by (cases "t = []") simp_all
qed

lemma split_go_skip:
  "\<forall>c\<in>set sep. is_ws c \<Longrightarrow> split_go True cur (sep @ rest) = split_go True cur rest"
  by (induction sep) simp_all

lemma split_go_sep:
  assumes "sep \<noteq> []" and "\<forall>c\<in>set sep. is_ws c"
  shows "split_go False cur (sep @ rest) = rev cur # split_go True [] rest"
proof -
  obtain c sep' where sep: "sep = c # sep'" using assms(1) by (cases sep) auto
  then show ?thesis using assms(2) split_go_skip [of sep' "[]" rest] by simp
qed

lemma split_go_piece:
  assumes "t \<noteq> []" and "\<forall>c\<in>set t. \<not> is_ws c" and "sep \<noteq> []" and "\<forall>c\<in>set sep. is_ws c"
  shows "split_go f [] (t @ sep @ rest) = t # split_go True [] rest"
  using split_go_token [OF assms(2), of f "[]" "sep @ rest"] split_go_sep [OF assms(3,4), of "rev t" rest]
    assms(1) by simp

lemma split_go_last:
  assumes "t \<noteq> []" and "\<forall>c\<in>set t. \<not> is_ws c"
  shows "split_go f [] t = [t]"
  using split_go_token [OF assms(2), of f "[]" "[]"] assms(1) by simp

lemma trim_pad:
  assumes "\<forall>c\<in>set l. is_ws c" and "\<forall>c\<in>set r. is_ws c"
    and "b \<noteq> []" and "\<not> is_ws (hd b)" and "\<not> is_ws (last b)"
  shows "trim (l @ b @ r) = b"
proof -
  have front: "dropWhile is_ws (l @ b @ r) = b @ r"
    using assms(1,3,4) by (cases b) simp_all
  have "dropWhile is_ws (rev r @ rev b) = dropWhile is_ws (rev b)"
    by (rule dropWhile_append2) (use assms(2) in auto)
  moreover have "dropWhile is_ws (rev b) = rev b"
    using assms(3,5) by (cases b rule: rev_cases) simp_all
  ultimately have rear: "dropWhile is_ws (rev r @ rev b) = rev b"
    by simp
  show ?thesis by (simp add: trim_def front rear)
qed

text \<open>
  What the parse does on every string. The parsed bounds always have four
  entries. A string that, trimmed, does not split into exactly four tokens
  parses to \<open>[0, 0, 100, 100]\<close>. A string of four numeric tokens, separated by
  white space and with any white space around them, parses to exactly the four
  numbers of its tokens.
\<close>

lemma bounds_parse:
  "length (baseViewBox s) = 4
   \<and> (length (split_ws (trim s)) \<noteq> 4 \<longrightarrow> baseViewBox s = [Fin 0, Fin 0, Fin 100, Fin 100])
   \<and> (\<forall>l t1 s1 t2 s2 t3 s3 t4 r.
        s = l @ t1 @ s1 @ t2 @ s2 @ t3 @ s3 @ t4 @ r
        \<and> (\<forall>t\<in>set [t1, t2, t3, t4]. t \<noteq> [] \<and> (\<forall>c\<in>set t. \<not> is_ws c) \<and> js_Number t \<noteq> NaN)
        \<and> (\<forall>w\<in>set [s1, s2, s3]. w \<noteq> [])
        \<and> (\<forall>w\<in>set [l, s1, s2, s3, r]. \<forall>c\<in>set w. is_ws c) \<longrightarrow>
        split_ws (trim s) = [t1, t2, t3, t4]
        \<and> baseViewBox s = [js_Number t1, js_Number t2, js_Number t3, js_Number t4])"
proof -
  have wf: "split_ws (trim s) = [t1, t2, t3, t4]
        \<and> baseViewBox s = [js_Number t1, js_Number t2, js_Number t3, js_Number t4]"
    if s: "s = l @ t1 @ s1 @ t2 @ s2 @ t3 @ s3 @ t4 @ r"
      and t: "\<forall>t\<in>set [t1, t2, t3, t4]. t \<noteq> [] \<and> (\<forall>c\<in>set t. \<not> is_ws c) \<and> js_Number t \<noteq> NaN"
      and n: "\<forall>w\<in>set [s1, s2, s3]. w \<noteq> []"
      and w: "\<forall>w\<in>set [l, s1, s2, s3, r]. \<forall>c\<in>set w. is_ws c"
    for l t1 s1 t2 s2 t3 s3 t4 r
  proof -
    let ?b = "t1 @ s1 @ t2 @ s2 @ t3 @ s3 @ t4"
    have b: "?b \<noteq> []" "\<not> is_ws (hd ?b)" "\<not> is_ws (last ?b)"
      using t by (simp_all add: hd_append last_append)
    have "trim s = ?b"
      using trim_pad [of l r ?b] w b by (simp add: s)
    moreover have "split_go False [] ?b = [t1, t2, t3, t4]"
      using t n w
      by (simp add: split_go_piece [of t1 s1] split_go_piece [of t2 s2]
          split_go_piece [of t3 s3] split_go_last [of t4])
    ultimately have "split_ws (trim s) = [t1, t2, t3, t4]"
      by (simp add: split_ws_def)
    then show ?thesis by (simp add: baseViewBox_def)
  qed
  have short: "baseViewBox s = [Fin 0, Fin 0, Fin 100, Fin 100]"
    if "length (split_ws (trim s)) \<noteq> 4"
    using that by (simp add: baseViewBox_def Let_def)
  have c1: "length (baseViewBox s) = 4" by (rule length_baseViewBox)
  have c2: "length (split_ws (trim s)) \<noteq> 4 \<longrightarrow>
      baseViewBox s = [Fin 0, Fin 0, Fin 100, Fin 100]"
    using short by (rule impI)
  have c3: "\<forall>l t1 s1 t2 s2 t3 s3 t4 r.
        s = l @ t1 @ s1 @ t2 @ s2 @ t3 @ s3 @ t4 @ r
        \<and> (\<forall>t\<in>set [t1, t2, t3, t4]. t \<noteq> [] \<and> (\<forall>c\<in>set t. \<not> is_ws c) \<and> js_Number t \<noteq> NaN)
        \<and> (\<forall>w\<in>set [s1, s2, s3]. w \<noteq> [])
        \<and> (\<forall>w\<in>set [l, s1, s2, s3, r]. \<forall>c\<in>set w. is_ws c) \<longrightarrow>
        split_ws (trim s) = [t1, t2, t3, t4]
        \<and> baseViewBox s = [js_Number t1, js_Number t2, js_Number t3, js_Number t4]"
  proof (intro allI impI)
    fix l t1 s1 t2 s2 t3 s3 t4 r
    assume h: "s = l @ t1 @ s1 @ t2 @ s2 @ t3 @ s3 @ t4 @ r
        \<and> (\<forall>t\<in>set [t1, t2, t3, t4]. t \<noteq> [] \<and> (\<forall>c\<in>set t. \<not> is_ws c) \<and> js_Number t \<noteq> NaN)
        \<and> (\<forall>w\<in>set [s1, s2, s3]. w \<noteq> [])
        \<and> (\<forall>w\<in>set [l, s1, s2, s3, r]. \<forall>c\<in>set w. is_ws c)"
    from h show "split_ws (trim s) = [t1, t2, t3, t4]
        \<and> baseViewBox s = [js_Number t1, js_Number t2, js_Number t3, js_Number t4]"
      by (elim conjE) (rule wf)
  qed
  show ?thesis by (rule conjI [OF c1 conjI [OF c2 c3]])
qed

text \<open>
  Four numbers in several notations, the default bounds and four numbers
  separated by no-break spaces parse to their numbers; a string with commas and
  no space (one token), a blank string and a string of five numbers parse to the
  default; a literal beyond the largest double parses to \<^verbatim>\<open>Infinity\<close>.
\<close>

lemma bounds_parse_examples:
  "baseViewBox (ascii ''  -5 2.5   30 4e1 '') = [Fin (- 5), Fin (5 / 2), Fin 30, Fin 40]"
  "baseViewBox (ascii ''0 0 100 100'') = [Fin 0, Fin 0, Fin 100, Fin 100]"
  "baseViewBox [49, 0xA0, 50, 0xA0, 51, 0x2003, 52, 0xFEFF] = [Fin 1, Fin 2, Fin 3, Fin 4]"
  "baseViewBox (ascii ''0,0,100,100'') = [Fin 0, Fin 0, Fin 100, Fin 100]"
  "baseViewBox (ascii '' '') = [Fin 0, Fin 0, Fin 100, Fin 100]"
  "baseViewBox (ascii ''1 2 3 4 5'') = [Fin 0, Fin 0, Fin 100, Fin 100]"
  "js_Number (ascii ''1e309'') = PosInf"
  "js_Number (ascii ''-1e309'') = NegInf"
  by (simp_all add: parse_defs)

text \<open>
  C5. The fallback tests the number of tokens only. The bounds
  \<^verbatim>\<open>0, 0, 100, 100\<close> have four tokens, three of them with a comma and so not
  numeric, and the bounds \<^verbatim>\<open>foo bar baz qux\<close> have four tokens, none of them
  numeric. Neither is a string of exactly four numeric tokens, and neither
  parses to the default \<open>[0, 0, 100, 100]\<close>: the tokens that are not numeric come
  out as \<^verbatim>\<open>NaN\<close>.
\<close>

theorem non_numeric_bounds_kept:
  "\<not> four_numeric_tokens (ascii ''0, 0, 100, 100'')
   \<and> baseViewBox (ascii ''0, 0, 100, 100'') = [NaN, NaN, NaN, Fin 100]
   \<and> baseViewBox (ascii ''0, 0, 100, 100'') \<noteq> [Fin 0, Fin 0, Fin 100, Fin 100]
   \<and> \<not> four_numeric_tokens (ascii ''foo bar baz qux'')
   \<and> baseViewBox (ascii ''foo bar baz qux'') = [NaN, NaN, NaN, NaN]
   \<and> baseViewBox (ascii ''foo bar baz qux'') \<noteq> [Fin 0, Fin 0, Fin 100, Fin 100]"
  by (simp add: four_numeric_tokens_def parse_defs)

section \<open>A new document\<close>

text \<open>
  C6, as the code has it. The reset effect sets the viewport to exactly the four
  parsed bounds and empties the shape list, the undo stack, the redo stack, the
  measurements and the selection, all in one update of the state; nothing else
  changes. When the bounds change, the render with the new props comes first,
  from the state as it was; the effect runs after it, and the render that
  follows shows the new bounds, no measurement, no selection and no committed
  shape.
\<close>

theorem document_change_reset:
  "resetEffect b st =
     st\<lparr>viewState := Some \<lparr>vx = baseViewBox b ! 0, vy = baseViewBox b ! 1,
                              vw = baseViewBox b ! 2, vh = baseViewBox b ! 3\<rparr>,
        userShapes := [], history := [], future := [], measurements := [],
        selectedElement := None\<rparr>
   \<and> length (baseViewBox b) = 4
   \<and> snd (bounds_change p st) = resetEffect (viewBox p) st
   \<and> fst (bounds_change p st) = [render p st, render p (resetEffect (viewBox p) st)]
   \<and> shown_viewBox (render p (resetEffect (viewBox p) st)) = FromState (base_viewport (viewBox p))
   \<and> shown_shapes (render p (resetEffect (viewBox p) st))
       = (case currentShape st of Some cs \<Rightarrow> [cs] | None \<Rightarrow> [])
   \<and> shown_measurements (render p (resetEffect (viewBox p) st)) = []
   \<and> shown_selection (render p (resetEffect (viewBox p) st)) = None"
  by (simp add: resetEffect_def base_viewport_def bounds_change_def render_def Let_def
      length_baseViewBox)

text \<open>
  C6 as the specification states it has the reset done before anything of the
  new document is shown. On the annotated canvas, the render that React commits
  when the next drawing arrives shows the new drawing in the old viewport
  \<open>0 0 100 100\<close> (the new bounds are \<open>0 0 50 50\<close>), with the rectangle and the
  measurement of the old drawing.
\<close>

theorem document_change_counterexample:
  "shown_content (hd (fst (bounds_change next_props annotated))) = svgContent next_props
   \<and> shown_viewBox (hd (fst (bounds_change next_props annotated)))
       = FromState \<lparr>vx = Fin 0, vy = Fin 0, vw = Fin 100, vh = Fin 100\<rparr>
   \<and> base_viewport (viewBox next_props) = \<lparr>vx = Fin 0, vy = Fin 0, vw = Fin 50, vh = Fin 50\<rparr>
   \<and> map data (shown_shapes (hd (fst (bounds_change next_props annotated))))
       = [Rect (Fin 0) (Fin 0) (Fin 2) (Fin 3) (Fin 0) (Fin 0)]
   \<and> map distance (shown_measurements (hd (fst (bounds_change next_props annotated)))) = [Fin 5]"
proof -
  have b: "base_viewport (viewBox next_props) = \<lparr>vx = Fin 0, vy = Fin 0, vw = Fin 50, vh = Fin 50\<rparr>"
    by (simp add: next_props_def base_viewport_def parse_defs)
  have v: "viewState annotated = Some \<lparr>vx = Fin 0, vy = Fin 0, vw = Fin 100, vh = Fin 100\<rparr>"
    by (simp add: annotated_def rect_drag_def session_defs gesture_defs base_100)
  have s: "map data (userShapes annotated) = [Rect (Fin 0) (Fin 0) (Fin 2) (Fin 3) (Fin 0) (Fin 0)]"
    "currentShape annotated = None"
    by (simp_all add: annotated_def rect_drag_def session_defs gesture_defs)
  have m: "map distance (measurements annotated) = [Fin 5]"
    by (simp add: annotated_def rect_drag_def session_defs gesture_defs sqrt_25)
  show ?thesis
    by (simp add: bounds_change_def render_def Let_def b v s m)
qed

end
